theory Spec2Isabelle
  imports Main
begin

section \<open>JavaScript values\<close>

text \<open>
  The module \<^verbatim>\<open>src/supabase.js\<close> passes records between its callers and the remote
  service without looking into them, except for three things: it tests values for
  truthiness (\<^verbatim>\<open>if (error)\<close>, \<^verbatim>\<open>if (data)\<close>, \<^verbatim>\<open>data || []\<close>), it reads the properties
  \<^verbatim>\<open>data\<close>, \<^verbatim>\<open>error\<close> and \<^verbatim>\<open>clinic_code\<close>, and it uses a value as a property key
  (\<^verbatim>\<open>clinicsObj[clinic.clinic_code] = clinic\<close>).

  Values are the values of JSON, plus \<^verbatim>\<open>undefined\<close>. A number is carried as its
  canonical rendering (what \<^verbatim>\<open>String(n)\<close> gives, so \<^verbatim>\<open>0\<close> and \<^verbatim>\<open>-0\<close> are both
  \<open>''0''\<close>): the module never computes with numbers, it only tests them and turns them
  into property keys. An object is the list of its own properties, in the order of their
  creation; such an object has \<^verbatim>\<open>Object.prototype\<close> as its prototype. Values hold no
  functions, so no value has a method of its own. In a list of properties the first
  entry of a name is the property.

  A string is a list of characters; the module compares strings and tests them for
  emptiness, and nothing here looks into a character apart from the ASCII ones of the
  names spelled out. What \<^verbatim>\<open>String.prototype.toUpperCase\<close> makes of a string is fixed
  by the case tables of the language, not by the module: the operations that call it
  take it as their first argument, \<open>toUpperCase\<close>, and what is proved of them holds
  for every such function.
\<close>

datatype jsval =
    JUndefined
  | JNull
  | JBool bool
  | JNum string
  | JStr string
  | JArr "jsval list"
  | JObj "(string \<times> jsval) list"

text \<open>What the code can throw or let through: a \<^verbatim>\<open>TypeError\<close> of the language, or
  whatever value a remote call was rejected with.\<close>

datatype exn = TypeError | Raised jsval

text \<open>The result of calling a function of the module: it returns, or an exception
  leaves it (for an \<^verbatim>\<open>async\<close> function: the promise is fulfilled, or rejected).\<close>

datatype 'a outcome = Returned 'a | Thrown exn

text \<open>\<^verbatim>\<open>ToBoolean\<close>.\<close>

fun truthy :: "jsval \<Rightarrow> bool" where
  "truthy JUndefined = False"
| "truthy JNull = False"
| "truthy (JBool b) = b"
| "truthy (JNum r) = (r \<noteq> ''0'' \<and> r \<noteq> ''NaN'')"
| "truthy (JStr s) = (s \<noteq> [])"
| "truthy (JArr xs) = True"
| "truthy (JObj kvs) = True"

text \<open>Reading property \<open>k\<close> of a value, for a name \<open>k\<close> that no built-in prototype
  defines (the module reads \<^verbatim>\<open>data\<close>, \<^verbatim>\<open>error\<close> and \<^verbatim>\<open>clinic_code\<close>): \<^verbatim>\<open>null\<close> and
  \<^verbatim>\<open>undefined\<close> have no properties and the read throws; an object gives its own
  property or \<^verbatim>\<open>undefined\<close>; every other value gives \<^verbatim>\<open>undefined\<close>.\<close>

fun get_prop :: "jsval \<Rightarrow> string \<Rightarrow> exn + jsval" where
  "get_prop JUndefined k = Inl TypeError"
| "get_prop JNull k = Inl TypeError"
| "get_prop (JObj kvs) k = Inr (case map_of kvs k of None \<Rightarrow> JUndefined | Some v \<Rightarrow> v)"
| "get_prop v k = Inr JUndefined"

text \<open>\<^verbatim>\<open>Array.prototype.join\<close> with a comma, on elements already rendered.\<close>

fun join_commas :: "string list \<Rightarrow> string" where
  "join_commas [] = []"
| "join_commas [s] = s"
| "join_commas (s # t # ts) = s @ '','' @ join_commas (t # ts)"

text \<open>The first exception of a list of results, or all their values.\<close>

fun all_or_first_exn :: "(exn + 'a) list \<Rightarrow> exn + 'a list" where
  "all_or_first_exn [] = Inr []"
| "all_or_first_exn (Inl e # rs) = Inl e"
| "all_or_first_exn (Inr x # rs) =
     (case all_or_first_exn rs of Inl e \<Rightarrow> Inl e | Inr xs \<Rightarrow> Inr (x # xs))"

text \<open>\<^verbatim>\<open>ToPropertyKey\<close>, which on these values is \<^verbatim>\<open>ToString\<close>. An array is its
  elements joined by commas, \<^verbatim>\<open>null\<close> and \<^verbatim>\<open>undefined\<close> elements rendered empty. An
  object is converted by its \<^verbatim>\<open>toString\<close> method: the inherited one gives
  \<^verbatim>\<open>[object Object]\<close>; an own property \<^verbatim>\<open>toString\<close> hides it, and as it is not a
  function, and the inherited \<^verbatim>\<open>valueOf\<close> gives the object back or is hidden in the
  same way, the conversion throws a \<^verbatim>\<open>TypeError\<close>.\<close>

fun to_property_key :: "jsval \<Rightarrow> exn + string" where
  "to_property_key JUndefined = Inr ''undefined''"
| "to_property_key JNull = Inr ''null''"
| "to_property_key (JBool b) = Inr (if b then ''true'' else ''false'')"
| "to_property_key (JNum r) = Inr r"
| "to_property_key (JStr s) = Inr s"
| "to_property_key (JArr xs) =
     (case all_or_first_exn
             (map (\<lambda>x. if x = JNull \<or> x = JUndefined then Inr [] else to_property_key x) xs) of
        Inl e \<Rightarrow> Inl e
      | Inr rendered \<Rightarrow> Inr (join_commas rendered))"
| "to_property_key (JObj kvs) =
     (if ''toString'' \<in> set (map fst kvs) then Inl TypeError else Inr ''[object Object]'')"

subsection \<open>\<^verbatim>\<open>String.prototype.toUpperCase\<close>\<close>

text \<open>The call \<^verbatim>\<open>v.toUpperCase()\<close>: only a string has the method; on \<^verbatim>\<open>null\<close> and
  \<^verbatim>\<open>undefined\<close> the property read throws, on every other value the property is
  \<^verbatim>\<open>undefined\<close>, or an own property that is not a function, and calling it throws.\<close>

fun call_toUpperCase :: "(string \<Rightarrow> string) \<Rightarrow> jsval \<Rightarrow> exn + jsval" where
  "call_toUpperCase toUpperCase (JStr s) = Inr (JStr (toUpperCase s))"
| "call_toUpperCase toUpperCase v = Inl TypeError"

text \<open>The part of the case tables that concerns ASCII: the letters \<^verbatim>\<open>a\<close> to \<^verbatim>\<open>z\<close>
  (codes 97 to 122) go to \<^verbatim>\<open>A\<close> to \<^verbatim>\<open>Z\<close> (32 less), every other ASCII character
  stays.\<close>

definition is_lower :: "char \<Rightarrow> bool" where
  "is_lower c = (97 \<le> (of_char c :: nat) \<and> (of_char c :: nat) \<le> 122)"

definition upper_char :: "char \<Rightarrow> char" where
  "upper_char c = (if is_lower c then char_of ((of_char c :: nat) - 32) else c)"

definition ascii_upper :: "string \<Rightarrow> string" where
  "ascii_upper s = map upper_char s"


section \<open>Objects built by the module\<close>

text \<open>
  \<^verbatim>\<open>getAllClinics\<close> builds an object of its own, \<^verbatim>\<open>const clinicsObj = {}\<close>, and
  assigns to computed keys of it. An assignment \<^verbatim>\<open>obj[k] = v\<close> is the property write of
  the language: it creates or overwrites an own property, except where the prototype
  chain answers with a setter. \<^verbatim>\<open>Object.prototype\<close> has exactly one such property,
  the accessor \<^verbatim>\<open>__proto__\<close>, whose setter replaces the prototype of the object when
  the assigned value is an object or \<^verbatim>\<open>null\<close> and does nothing otherwise. So the
  object carries its prototype next to its own properties.
\<close>

datatype prototype =
    ObjectPrototype
  | NullPrototype
  | ProtoObj "(string \<times> jsval) list"
  | ProtoArr "jsval list"

record js_object =
  proto :: prototype
  own :: "(string \<times> jsval) list"

definition empty_object :: js_object where
  "empty_object = \<lparr>proto = ObjectPrototype, own = []\<rparr>"

text \<open>Creating or overwriting an own property; a new key goes last.\<close>

fun put_own :: "string \<Rightarrow> jsval \<Rightarrow> (string \<times> jsval) list \<Rightarrow> (string \<times> jsval) list" where
  "put_own k v [] = [(k, v)]"
| "put_own k v ((k', v') # kvs) =
     (if k = k' then (k, v) # kvs else (k', v') # put_own k v kvs)"

text \<open>Whether an assignment to \<^verbatim>\<open>__proto__\<close> reaches the setter of
  \<^verbatim>\<open>Object.prototype\<close>: the object has no own property of that name, neither has the
  object it inherits from, and the chain ends in \<^verbatim>\<open>Object.prototype\<close>.\<close>

definition reaches_proto_setter :: "js_object \<Rightarrow> bool" where
  "reaches_proto_setter obj =
     (''__proto__'' \<notin> set (map fst (own obj)) \<and>
      (case proto obj of
         ObjectPrototype \<Rightarrow> True
       | NullPrototype \<Rightarrow> False
       | ProtoObj kvs \<Rightarrow> ''__proto__'' \<notin> set (map fst kvs)
       | ProtoArr xs \<Rightarrow> True))"

definition assign :: "string \<Rightarrow> jsval \<Rightarrow> js_object \<Rightarrow> js_object" where
  "assign k v obj =
     (if k = ''__proto__'' \<and> reaches_proto_setter obj then
        (case v of
           JObj kvs \<Rightarrow> obj\<lparr>proto := ProtoObj kvs\<rparr>
         | JArr xs \<Rightarrow> obj\<lparr>proto := ProtoArr xs\<rparr>
         | JNull \<Rightarrow> obj\<lparr>proto := NullPrototype\<rparr>
         | _ \<Rightarrow> obj)
      else obj\<lparr>own := put_own k v (own obj)\<rparr>)"

text \<open>\<^verbatim>\<open>Object.keys\<close>, up to the order of integer-like keys, and the own property
  stored under a key.\<close>

definition own_keys :: "js_object \<Rightarrow> string list" where
  "own_keys obj = map fst (own obj)"

definition own_property :: "js_object \<Rightarrow> string \<Rightarrow> jsval option" where
  "own_property obj k = map_of (own obj) k"

section \<open>The remote service\<close>

text \<open>
  The client library \<^verbatim>\<open>@supabase/supabase-js\<close> is not part of the repository. A query
  is what the module's call chain builds: the table named in \<^verbatim>\<open>from\<close> and the calls
  that follow, in order, with their arguments. Building a query sends nothing; the
  request goes out when the chain is awaited.
\<close>

datatype step =
    Select "string option"
  | Insert "jsval list"
  | Update jsval
  | Eq string jsval
  | Single

record query =
  table :: string
  steps :: "step list"

definition q_from :: "string \<Rightarrow> query" where
  "q_from t = \<lparr>table = t, steps = []\<rparr>"

definition q_select :: "string option \<Rightarrow> query \<Rightarrow> query" where
  "q_select cols q = q\<lparr>steps := steps q @ [Select cols]\<rparr>"

definition q_insert :: "jsval list \<Rightarrow> query \<Rightarrow> query" where
  "q_insert rows q = q\<lparr>steps := steps q @ [Insert rows]\<rparr>"

definition q_update :: "jsval \<Rightarrow> query \<Rightarrow> query" where
  "q_update updates q = q\<lparr>steps := steps q @ [Update updates]\<rparr>"

definition q_eq :: "string \<Rightarrow> jsval \<Rightarrow> query \<Rightarrow> query" where
  "q_eq column v q = q\<lparr>steps := steps q @ [Eq column v]\<rparr>"

definition q_single :: "query \<Rightarrow> query" where
  "q_single q = q\<lparr>steps := steps q @ [Single]\<rparr>"

text \<open>Awaiting a query either throws (the promise is rejected) or gives a value, by
  the library's contract an object with the fields \<^verbatim>\<open>data\<close> and \<^verbatim>\<open>error\<close>. A client
  answers a query from the state \<open>'s\<close> of the service and may change that state.\<close>

datatype response = Rejects jsval | Resolves jsval

type_synonym 's client = "'s \<Rightarrow> query \<Rightarrow> response \<times> 's"

section \<open>Module state and initialisation\<close>

text \<open>
  The module variable \<^verbatim>\<open>supabase\<close> holds \<^verbatim>\<open>null\<close> or whatever \<^verbatim>\<open>createClient\<close>
  returned: a client, or any other value (\<open>NotClient JNull\<close> is \<^verbatim>\<open>null\<close>). In the state,
  \<open>supabase\<close> is that variable, \<open>backend\<close> is the state of the remote service, and
  \<open>issued\<close> records the queries sent so far, oldest first. The lines written to the
  console are left out.
\<close>

datatype 's handle = Client "'s client" | NotClient jsval

record 's world =
  supabase :: "'s handle"
  backend :: 's
  issued :: "query list"

text \<open>\<^verbatim>\<open>createClient(url, key, options)\<close> throws or returns a value.\<close>

type_synonym 's constructor = "string \<Rightarrow> string \<Rightarrow> jsval \<Rightarrow> exn + 's handle"

text \<open>Lines 3 to 10: \<^verbatim>\<open>require\<close> throws (\<open>Inl\<close>) and \<^verbatim>\<open>createClient\<close> stays
  \<^verbatim>\<open>null\<close>, or it gives the module, whose export \<^verbatim>\<open>createClient\<close> may be missing.\<close>

definition load_createClient :: "exn + 's constructor option \<Rightarrow> 's constructor option" where
  "load_createClient required = (case required of Inl e \<Rightarrow> None | Inr exported \<Rightarrow> exported)"

text \<open>\<^verbatim>\<open>process.env.NAME || ""\<close>: an unset variable is \<^verbatim>\<open>undefined\<close>.\<close>

definition env_or_empty :: "string option \<Rightarrow> string" where
  "env_or_empty v = (case v of None \<Rightarrow> [] | Some s \<Rightarrow> if s \<noteq> [] then s else [])"

definition client_options :: jsval where
  "client_options =
     JObj [(''auth'', JObj [(''autoRefreshToken'', JBool False), (''persistSession'', JBool False)])]"

text \<open>Line 28, in the handler of a failed construction: \<^verbatim>\<open>error.message\<close> is read
  from what was thrown, and that read throws when the value is \<^verbatim>\<open>null\<close> or
  \<^verbatim>\<open>undefined\<close>. Nothing catches it.\<close>

fun read_message :: "exn \<Rightarrow> exn + unit" where
  "read_message (Raised JNull) = Inl TypeError"
| "read_message (Raised JUndefined) = Inl TypeError"
| "read_message e = Inr ()"

text \<open>Lines 17 to 38: the one place where \<open>supabase\<close> is assigned. \<open>Inl\<close>: loading the
  module throws.\<close>

definition init_supabase ::
  "exn + 's constructor option \<Rightarrow> string option \<Rightarrow> string option \<Rightarrow> exn + 's handle" where
  "init_supabase required env_url env_key =
     (let createClient = load_createClient required;
          SUPABASE_URL = env_or_empty env_url;
          SUPABASE_SERVICE_ROLE_KEY = env_or_empty env_key
      in case createClient of
           None \<Rightarrow> Inr (NotClient JNull)
         | Some construct \<Rightarrow>
             if SUPABASE_URL \<noteq> [] \<and> SUPABASE_SERVICE_ROLE_KEY \<noteq> [] then
               (case construct SUPABASE_URL SUPABASE_SERVICE_ROLE_KEY client_options of
                  Inl error \<Rightarrow>
                    (case read_message error of
                       Inl e \<Rightarrow> Inl e
                     | Inr u \<Rightarrow> Inr (NotClient JNull))
                | Inr made \<Rightarrow> Inr made)
             else Inr (NotClient JNull))"

definition module_load ::
  "exn + 's constructor option \<Rightarrow> string option \<Rightarrow> string option \<Rightarrow> 's \<Rightarrow> exn + 's world" where
  "module_load required env_url env_key b =
     (case init_supabase required env_url env_key of
        Inl e \<Rightarrow> Inl e
      | Inr h \<Rightarrow> Inr \<lparr>supabase = h, backend = b, issued = []\<rparr>)"

text \<open>\<^verbatim>\<open>supabase !== null\<close>.\<close>

definition isSupabaseAvailable :: "'s world \<Rightarrow> bool" where
  "isSupabaseAvailable w =
     (case supabase w of
        Client client \<Rightarrow> True
      | NotClient v \<Rightarrow> (case v of JNull \<Rightarrow> False | _ \<Rightarrow> True))"

section \<open>Operations\<close>

text \<open>Awaiting the query: it is sent to the service, and logged as sent.\<close>

definition await_query :: "'s client \<Rightarrow> query \<Rightarrow> 's world \<Rightarrow> response \<times> 's world" where
  "await_query client q w =
     (case client (backend w) q of
        (r, b') \<Rightarrow> (r, w\<lparr>backend := b', issued := issued w @ [q]\<rparr>))"

text \<open>\<^verbatim>\<open>const { data, error } = await ...\<close>: a rejection is thrown on; destructuring
  \<^verbatim>\<open>null\<close> or \<^verbatim>\<open>undefined\<close> throws.\<close>

definition destructure :: "response \<Rightarrow> exn + jsval \<times> jsval" where
  "destructure r =
     (case r of
        Rejects e \<Rightarrow> Inl (Raised e)
      | Resolves v \<Rightarrow>
          (case get_prop v ''data'' of
             Inl e \<Rightarrow> Inl e
           | Inr data \<Rightarrow>
               (case get_prop v ''error'' of
                  Inl e \<Rightarrow> Inl e
                | Inr error \<Rightarrow> Inr (data, error))))"

text \<open>The chain starts with \<^verbatim>\<open>supabase.from(...)\<close>, which throws when \<open>supabase\<close> is
  not a client: the value has no method \<^verbatim>\<open>from\<close>.\<close>

definition await_data_error ::
  "query \<Rightarrow> 's world \<Rightarrow> (exn + jsval \<times> jsval) \<times> 's world" where
  "await_data_error q w =
     (case supabase w of
        NotClient v \<Rightarrow> (Inl TypeError, w)
      | Client client \<Rightarrow> (case await_query client q w of (r, w') \<Rightarrow> (destructure r, w')))"

text \<open>\<^verbatim>\<open>try { ... } catch (error) { return neutral; }\<close> around a body that returns.\<close>

definition catch_return :: "'a \<Rightarrow> (exn + 'a) \<times> 's world \<Rightarrow> 'a outcome \<times> 's world" where
  "catch_return neutral r =
     (case r of
        (Inl e, w') \<Rightarrow> (Returned neutral, w')
      | (Inr v, w') \<Rightarrow> (Returned v, w'))"

text \<open>The shared tail of the single-record operations: \<^verbatim>\<open>if (error) return null;
  return data;\<close>.\<close>

definition null_if_error :: "(exn + jsval \<times> jsval) \<times> 's world \<Rightarrow> (exn + jsval) \<times> 's world" where
  "null_if_error r =
     (case r of
        (Inl e, w') \<Rightarrow> (Inl e, w')
      | (Inr (data, error), w') \<Rightarrow> if truthy error then (Inr JNull, w') else (Inr data, w'))"

subsection \<open>Clinics\<close>

definition getClinicByCode_query :: "jsval \<Rightarrow> query" where
  "getClinicByCode_query code =
     q_single (q_eq ''clinic_code'' code (q_select (Some ''*'') (q_from ''clinics'')))"

definition getClinicByCode_try :: "(string \<Rightarrow> string) \<Rightarrow> jsval \<Rightarrow> 's world \<Rightarrow> (exn + jsval) \<times> 's world" where
  "getClinicByCode_try toUpperCase clinicCode w =
     (case supabase w of
        NotClient v \<Rightarrow> (Inl TypeError, w)
      | Client client \<Rightarrow>
          (case call_toUpperCase toUpperCase clinicCode of
             Inl e \<Rightarrow> (Inl e, w)
           | Inr code \<Rightarrow> null_if_error (await_data_error (getClinicByCode_query code) w)))"

definition getClinicByCode :: "(string \<Rightarrow> string) \<Rightarrow> jsval \<Rightarrow> 's world \<Rightarrow> jsval outcome \<times> 's world" where
  "getClinicByCode toUpperCase clinicCode w =
     (if \<not> isSupabaseAvailable w then (Returned JNull, w)
      else catch_return JNull (getClinicByCode_try toUpperCase clinicCode w))"

definition getAllClinics_query :: query where
  "getAllClinics_query = q_select (Some ''*'') (q_from ''clinics'')"

text \<open>The callback of \<^verbatim>\<open>data.forEach\<close>, run over the rows in order:
  \<^verbatim>\<open>clinicsObj[clinic.clinic_code] = clinic\<close>.\<close>

fun store_clinics :: "jsval list \<Rightarrow> js_object \<Rightarrow> exn + js_object" where
  "store_clinics [] clinicsObj = Inr clinicsObj"
| "store_clinics (clinic # rest) clinicsObj =
     (case get_prop clinic ''clinic_code'' of
        Inl e \<Rightarrow> Inl e
      | Inr code \<Rightarrow>
          (case to_property_key code of
             Inl e \<Rightarrow> Inl e
           | Inr key \<Rightarrow> store_clinics rest (assign key clinic clinicsObj)))"

text \<open>\<^verbatim>\<open>data.forEach(...)\<close> on a truthy \<open>data\<close>: only an array has the method.\<close>

definition forEach_clinic :: "jsval \<Rightarrow> js_object \<Rightarrow> exn + js_object" where
  "forEach_clinic data clinicsObj =
     (case data of
        JArr rows \<Rightarrow> store_clinics rows clinicsObj
      | _ \<Rightarrow> Inl TypeError)"

definition getAllClinics_try :: "'s world \<Rightarrow> (exn + js_object) \<times> 's world" where
  "getAllClinics_try w =
     (case await_data_error getAllClinics_query w of
        (Inl e, w') \<Rightarrow> (Inl e, w')
      | (Inr (data, error), w') \<Rightarrow>
          if truthy error then (Inr empty_object, w')
          else if truthy data then (forEach_clinic data empty_object, w')
          else (Inr empty_object, w'))"

definition getAllClinics :: "'s world \<Rightarrow> js_object outcome \<times> 's world" where
  "getAllClinics w =
     (if \<not> isSupabaseAvailable w then (Returned empty_object, w)
      else catch_return empty_object (getAllClinics_try w))"

definition createClinic_query :: "jsval \<Rightarrow> query" where
  "createClinic_query clinicData =
     q_single (q_select None (q_insert [clinicData] (q_from ''clinics'')))"

definition createClinic_try :: "jsval \<Rightarrow> 's world \<Rightarrow> (exn + jsval) \<times> 's world" where
  "createClinic_try clinicData w = null_if_error (await_data_error (createClinic_query clinicData) w)"

definition createClinic :: "jsval \<Rightarrow> 's world \<Rightarrow> jsval outcome \<times> 's world" where
  "createClinic clinicData w =
     (if \<not> isSupabaseAvailable w then (Returned JNull, w)
      else catch_return JNull (createClinic_try clinicData w))"

definition updateClinic_query :: "jsval \<Rightarrow> jsval \<Rightarrow> query" where
  "updateClinic_query code updates =
     q_single (q_select None (q_eq ''clinic_code'' code (q_update updates (q_from ''clinics''))))"

definition updateClinic_try :: "(string \<Rightarrow> string) \<Rightarrow> jsval \<Rightarrow> jsval \<Rightarrow> 's world \<Rightarrow> (exn + jsval) \<times> 's world" where
  "updateClinic_try toUpperCase clinicCode updates w =
     (case supabase w of
        NotClient v \<Rightarrow> (Inl TypeError, w)
      | Client client \<Rightarrow>
          (case call_toUpperCase toUpperCase clinicCode of
             Inl e \<Rightarrow> (Inl e, w)
           | Inr code \<Rightarrow> null_if_error (await_data_error (updateClinic_query code updates) w)))"

definition updateClinic :: "(string \<Rightarrow> string) \<Rightarrow> jsval \<Rightarrow> jsval \<Rightarrow> 's world \<Rightarrow> jsval outcome \<times> 's world" where
  "updateClinic toUpperCase clinicCode updates w =
     (if \<not> isSupabaseAvailable w then (Returned JNull, w)
      else catch_return JNull (updateClinic_try toUpperCase clinicCode updates w))"

subsection \<open>Patients\<close>

definition getPatientById_query :: "jsval \<Rightarrow> query" where
  "getPatientById_query patientId =
     q_single (q_eq ''patient_id'' patientId (q_select (Some ''*'') (q_from ''patients'')))"

definition getPatientById_try :: "jsval \<Rightarrow> 's world \<Rightarrow> (exn + jsval) \<times> 's world" where
  "getPatientById_try patientId w = null_if_error (await_data_error (getPatientById_query patientId) w)"

definition getPatientById :: "jsval \<Rightarrow> 's world \<Rightarrow> jsval outcome \<times> 's world" where
  "getPatientById patientId w =
     (if \<not> isSupabaseAvailable w then (Returned JNull, w)
      else catch_return JNull (getPatientById_try patientId w))"

definition getPatientsByClinicCode_query :: "jsval \<Rightarrow> query" where
  "getPatientsByClinicCode_query code =
     q_eq ''clinic_code'' code (q_select (Some ''*'') (q_from ''patients''))"

definition getPatientsByClinicCode_try :: "(string \<Rightarrow> string) \<Rightarrow> jsval \<Rightarrow> 's world \<Rightarrow> (exn + jsval) \<times> 's world" where
  "getPatientsByClinicCode_try toUpperCase clinicCode w =
     (case supabase w of
        NotClient v \<Rightarrow> (Inl TypeError, w)
      | Client client \<Rightarrow>
          (case call_toUpperCase toUpperCase clinicCode of
             Inl e \<Rightarrow> (Inl e, w)
           | Inr code \<Rightarrow>
               (case await_data_error (getPatientsByClinicCode_query code) w of
                  (Inl e, w') \<Rightarrow> (Inl e, w')
                | (Inr (data, error), w') \<Rightarrow>
                    if truthy error then (Inr (JArr []), w')
                    else if truthy data then (Inr data, w')
                    else (Inr (JArr []), w'))))"

definition getPatientsByClinicCode :: "(string \<Rightarrow> string) \<Rightarrow> jsval \<Rightarrow> 's world \<Rightarrow> jsval outcome \<times> 's world" where
  "getPatientsByClinicCode toUpperCase clinicCode w =
     (if \<not> isSupabaseAvailable w then (Returned (JArr []), w)
      else catch_return (JArr []) (getPatientsByClinicCode_try toUpperCase clinicCode w))"

definition createPatient_query :: "jsval \<Rightarrow> query" where
  "createPatient_query patientData =
     q_single (q_select None (q_insert [patientData] (q_from ''patients'')))"

definition createPatient_try :: "jsval \<Rightarrow> 's world \<Rightarrow> (exn + jsval) \<times> 's world" where
  "createPatient_try patientData w =
     null_if_error (await_data_error (createPatient_query patientData) w)"

definition createPatient :: "jsval \<Rightarrow> 's world \<Rightarrow> jsval outcome \<times> 's world" where
  "createPatient patientData w =
     (if \<not> isSupabaseAvailable w then (Returned JNull, w)
      else catch_return JNull (createPatient_try patientData w))"

definition updatePatient_query :: "jsval \<Rightarrow> jsval \<Rightarrow> query" where
  "updatePatient_query patientId updates =
     q_single (q_select None (q_eq ''patient_id'' patientId (q_update updates (q_from ''patients''))))"

definition updatePatient_try :: "jsval \<Rightarrow> jsval \<Rightarrow> 's world \<Rightarrow> (exn + jsval) \<times> 's world" where
  "updatePatient_try patientId updates w =
     null_if_error (await_data_error (updatePatient_query patientId updates) w)"

definition updatePatient :: "jsval \<Rightarrow> jsval \<Rightarrow> 's world \<Rightarrow> jsval outcome \<times> 's world" where
  "updatePatient patientId updates w =
     (if \<not> isSupabaseAvailable w then (Returned JNull, w)
      else catch_return JNull (updatePatient_try patientId updates w))"

subsection \<open>Callers\<close>

text \<open>What a caller can do with the module (\<^verbatim>\<open>module.exports\<close>), and a run of calls
  one after the other, each on the state the previous one left. \<open>toUpperCase\<close> is
  handed on to the operations that call it.\<close>

datatype call =
    IsSupabaseAvailable
  | GetClinicByCode jsval
  | GetAllClinics
  | CreateClinic jsval
  | UpdateClinic jsval jsval
  | GetPatientById jsval
  | GetPatientsByClinicCode jsval
  | CreatePatient jsval
  | UpdatePatient jsval jsval

datatype result = Flag bool | Value "jsval outcome" | Object "js_object outcome"

fun invoke :: "(string \<Rightarrow> string) \<Rightarrow> call \<Rightarrow> 's world \<Rightarrow> result \<times> 's world" where
  "invoke toUpperCase IsSupabaseAvailable w = (Flag (isSupabaseAvailable w), w)"
| "invoke toUpperCase (GetClinicByCode c) w =
     (case getClinicByCode toUpperCase c w of (r, w') \<Rightarrow> (Value r, w'))"
| "invoke toUpperCase GetAllClinics w = (case getAllClinics w of (r, w') \<Rightarrow> (Object r, w'))"
| "invoke toUpperCase (CreateClinic d) w = (case createClinic d w of (r, w') \<Rightarrow> (Value r, w'))"
| "invoke toUpperCase (UpdateClinic c u) w =
     (case updateClinic toUpperCase c u w of (r, w') \<Rightarrow> (Value r, w'))"
| "invoke toUpperCase (GetPatientById p) w = (case getPatientById p w of (r, w') \<Rightarrow> (Value r, w'))"
| "invoke toUpperCase (GetPatientsByClinicCode c) w =
     (case getPatientsByClinicCode toUpperCase c w of (r, w') \<Rightarrow> (Value r, w'))"
| "invoke toUpperCase (CreatePatient d) w = (case createPatient d w of (r, w') \<Rightarrow> (Value r, w'))"
| "invoke toUpperCase (UpdatePatient p u) w = (case updatePatient p u w of (r, w') \<Rightarrow> (Value r, w'))"

fun run_calls :: "(string \<Rightarrow> string) \<Rightarrow> call list \<Rightarrow> 's world \<Rightarrow> result list \<times> 's world" where
  "run_calls toUpperCase [] w = ([], w)"
| "run_calls toUpperCase (c # cs) w =
     (case invoke toUpperCase c w of
        (r, w') \<Rightarrow> (case run_calls toUpperCase cs w' of (rs, w'') \<Rightarrow> (r # rs, w'')))"

section \<open>Vocabulary of the properties\<close>

text \<open>The query a call sends when the connection is there: none for the availability
  test, and none when the code to be upper-cased is not a string, as the call throws
  before the chain is complete.\<close>

fun query_of :: "(string \<Rightarrow> string) \<Rightarrow> call \<Rightarrow> query option" where
  "query_of toUpperCase IsSupabaseAvailable = None"
| "query_of toUpperCase (GetClinicByCode c) =
     (case call_toUpperCase toUpperCase c of Inl e \<Rightarrow> None | Inr code \<Rightarrow> Some (getClinicByCode_query code))"
| "query_of toUpperCase GetAllClinics = Some getAllClinics_query"
| "query_of toUpperCase (CreateClinic d) = Some (createClinic_query d)"
| "query_of toUpperCase (UpdateClinic c u) =
     (case call_toUpperCase toUpperCase c of Inl e \<Rightarrow> None | Inr code \<Rightarrow> Some (updateClinic_query code u))"
| "query_of toUpperCase (GetPatientById p) = Some (getPatientById_query p)"
| "query_of toUpperCase (GetPatientsByClinicCode c) =
     (case call_toUpperCase toUpperCase c of
        Inl e \<Rightarrow> None
      | Inr code \<Rightarrow> Some (getPatientsByClinicCode_query code))"
| "query_of toUpperCase (CreatePatient d) = Some (createPatient_query d)"
| "query_of toUpperCase (UpdatePatient p u) = Some (updatePatient_query p u)"

text \<open>The neutral value of each operation: \<^verbatim>\<open>{}\<close> for \<^verbatim>\<open>getAllClinics\<close>, \<^verbatim>\<open>[]\<close> for
  \<^verbatim>\<open>getPatientsByClinicCode\<close>, \<^verbatim>\<open>null\<close> for the others.\<close>

fun is_operation :: "call \<Rightarrow> bool" where
  "is_operation IsSupabaseAvailable = False"
| "is_operation c = True"

fun neutral_of :: "call \<Rightarrow> result" where
  "neutral_of GetAllClinics = Object (Returned empty_object)"
| "neutral_of (GetPatientsByClinicCode c) = Value (Returned (JArr []))"
| "neutral_of c = Value (Returned JNull)"

text \<open>An exception leaves the call.\<close>

fun propagates :: "result \<Rightarrow> bool" where
  "propagates (Flag b) = False"
| "propagates (Value (Returned v)) = False"
| "propagates (Value (Thrown e)) = True"
| "propagates (Object (Returned obj)) = False"
| "propagates (Object (Thrown e)) = True"

text \<open>The two ways a remote call fails: it throws, or its result carries an error.\<close>

fun throws :: "response \<Rightarrow> bool" where
  "throws (Rejects e) = True"
| "throws (Resolves v) = False"

definition reports_error :: "response \<Rightarrow> bool" where
  "reports_error r = (case destructure r of Inl e \<Rightarrow> False | Inr (data, error) \<Rightarrow> truthy error)"




text \<open>A sequence is an array.\<close>

fun is_sequence :: "jsval \<Rightarrow> bool" where
  "is_sequence (JArr xs) = True"
| "is_sequence v = False"

text \<open>The key under which \<^verbatim>\<open>getAllClinics\<close> files a row, when reading the code of the
  row and converting it to a key do not throw.\<close>

definition row_key :: "jsval \<Rightarrow> string option" where
  "row_key clinic =
     (case get_prop clinic ''clinic_code'' of
        Inl e \<Rightarrow> None
      | Inr code \<Rightarrow> (case to_property_key code of Inl e \<Rightarrow> None | Inr key \<Rightarrow> Some key))"

text \<open>Rows that all have a key.\<close>

definition keyed_rows :: "jsval list \<Rightarrow> bool" where
  "keyed_rows rows = (\<forall>r \<in> set rows. row_key r \<noteq> None)"

text \<open>Rows that all have a key, none of them \<^verbatim>\<open>__proto__\<close>.\<close>

definition plain_rows :: "jsval list \<Rightarrow> bool" where
  "plain_rows rows = (\<forall>r \<in> set rows. \<exists>k. row_key r = Some k \<and> k \<noteq> ''__proto__'')"

text \<open>A successful answer carrying \<open>data\<close>, and an answer carrying both \<open>data\<close> and an
  error.\<close>

definition ok_response :: "jsval \<Rightarrow> response" where
  "ok_response data = Resolves (JObj [(''data'', data), (''error'', JNull)])"

definition error_response :: "jsval \<Rightarrow> jsval \<Rightarrow> response" where
  "error_response data error = Resolves (JObj [(''data'', data), (''error'', error)])"

subsection \<open>Test doubles\<close>

text \<open>A service without state that answers every query with the same response, a
  module connected to it, a module whose handle is \<^verbatim>\<open>null\<close>, and constructors that
  return a given value or throw a given exception.\<close>

definition fixed_client :: "response \<Rightarrow> unit client" where
  "fixed_client r b q = (r, b)"

definition connected :: "response \<Rightarrow> unit world" where
  "connected r = \<lparr>supabase = Client (fixed_client r), backend = (), issued = []\<rparr>"

definition disconnected :: "unit world" where
  "disconnected = \<lparr>supabase = NotClient JNull, backend = (), issued = []\<rparr>"

definition constructor_returning :: "unit handle \<Rightarrow> unit constructor" where
  "constructor_returning made url key options = Inr made"

definition constructor_throwing :: "exn \<Rightarrow> unit constructor" where
  "constructor_throwing e url key options = Inl e"

definition clinic_row :: "string \<Rightarrow> string \<Rightarrow> jsval" where
  "clinic_row code name = JObj [(''clinic_code'', JStr code), (''name'', JStr name)]"

section \<open>Basic facts\<close>

lemmas gate_defs = catch_return_def null_if_error_def await_data_error_def await_query_def

lemmas facade_defs =
  getClinicByCode_def getClinicByCode_try_def getAllClinics_def getAllClinics_try_def
  createClinic_def createClinic_try_def updateClinic_def updateClinic_try_def
  getPatientById_def getPatientById_try_def
  getPatientsByClinicCode_def getPatientsByClinicCode_try_def
  createPatient_def createPatient_try_def updatePatient_def updatePatient_try_def

lemmas double_defs = connected_def disconnected_def fixed_client_def ok_response_def
  error_response_def clinic_row_def

lemma available_iff: "isSupabaseAvailable w \<longleftrightarrow> supabase w \<noteq> NotClient JNull"
  by (simp add: isSupabaseAvailable_def split: handle.splits jsval.splits)

lemma available_Client: "supabase w = Client client \<Longrightarrow> isSupabaseAvailable w"
  by (simp add: available_iff)

lemma unavailable_null: "supabase w = NotClient JNull \<Longrightarrow> \<not> isSupabaseAvailable w"
  by (simp add: available_iff)

lemma invoke_supabase: "supabase (snd (invoke toUpperCase c w)) = supabase w"
  by (cases c; cases "supabase w")
    (auto simp: facade_defs gate_defs split: sum.splits prod.splits)

lemma invoke_disconnected:
  "supabase w = NotClient JNull \<Longrightarrow> is_operation c \<Longrightarrow> invoke toUpperCase c w = (neutral_of c, w)"
  by (cases c) (simp_all add: facade_defs unavailable_null)

lemma invoke_issued:
  "supabase w = Client client \<Longrightarrow>
   issued (snd (invoke toUpperCase c w)) =
     issued w @ (case query_of toUpperCase c of None \<Rightarrow> [] | Some q \<Rightarrow> [q])"
  by (cases c)
    (auto simp: facade_defs gate_defs available_Client split: sum.splits prod.splits)

lemma invoke_never_throws: "\<not> propagates (fst (invoke toUpperCase c w))"
  by (cases c; cases "supabase w")
    (auto simp: facade_defs gate_defs split: sum.splits prod.splits)

lemma invoke_failure:
  assumes "supabase w = Client client" and "is_operation c"
    and "\<forall>q. query_of toUpperCase c = Some q \<longrightarrow>
           throws (fst (client (backend w) q)) \<or> reports_error (fst (client (backend w) q))"
  shows "fst (invoke toUpperCase c w) = neutral_of c"
  using assms
  by (cases c)
    (auto simp: facade_defs gate_defs available_Client reports_error_def destructure_def
      elim!: throws.elims split: sum.splits prod.splits)

section \<open>Failures never reach the caller\<close>

text \<open>
  C1. No call of the module lets an exception through, whatever the state of the module
  and of the service. And with the connection there, an operation whose remote call
  throws, or resolves to a result with an error, returns its neutral value: \<^verbatim>\<open>{}\<close> for
  \<^verbatim>\<open>getAllClinics\<close>, \<^verbatim>\<open>[]\<close> for \<^verbatim>\<open>getPatientsByClinicCode\<close>, \<^verbatim>\<open>null\<close> for the six
  others. (An operation that sends no query, because its code argument could not be
  upper-cased, returns the neutral value as well.)
\<close>

theorem failure_gives_neutral_value:
  "\<not> propagates (fst (invoke toUpperCase c w)) \<and>
   (supabase w = Client client \<and> is_operation c \<and>
    (\<forall>q. query_of toUpperCase c = Some q \<longrightarrow>
       throws (fst (client (backend w) q)) \<or> reports_error (fst (client (backend w) q)))
    \<longrightarrow> fst (invoke toUpperCase c w) = neutral_of c)"
  using invoke_never_throws [of toUpperCase c w]
    invoke_failure [where w = w and client = client and toUpperCase = toUpperCase and c = c]
  by blast

theorem failure_gives_neutral_value_witness:
  "supabase (connected (Rejects (JStr ''timeout''))) = Client (fixed_client (Rejects (JStr ''timeout'')))
   \<and> is_operation GetAllClinics
   \<and> throws (fst (fixed_client (Rejects (JStr ''timeout'')) () getAllClinics_query))
   \<and> fst (invoke ascii_upper GetAllClinics (connected (Rejects (JStr ''timeout'')))) =
       Object (Returned empty_object)
   \<and> \<not> propagates (fst (invoke ascii_upper GetAllClinics (connected (Rejects (JStr ''timeout'')))))"
  using failure_gives_neutral_value
    [where toUpperCase = ascii_upper and c = GetAllClinics
       and w = "connected (Rejects (JStr ''timeout''))"
       and client = "fixed_client (Rejects (JStr ''timeout''))"]
  by (simp add: connected_def fixed_client_def)

section \<open>The availability gate\<close>

text \<open>
  C2. \<^verbatim>\<open>isSupabaseAvailable()\<close> is false exactly when the handle is \<^verbatim>\<open>null\<close>, and then
  every operation returns its neutral value and leaves everything as it was: no query
  is sent and the service is not touched.
\<close>

theorem unavailable_returns_neutral_without_call:
  "(\<not> isSupabaseAvailable w \<longleftrightarrow> supabase w = NotClient JNull) \<and>
   (\<not> isSupabaseAvailable w \<and> is_operation c \<longrightarrow>
      fst (invoke toUpperCase c w) = neutral_of c \<and> snd (invoke toUpperCase c w) = w \<and>
      issued (snd (invoke toUpperCase c w)) = issued w)"
  using invoke_disconnected [where w = w and c = c and toUpperCase = toUpperCase]
  by (auto simp: available_iff)

theorem unavailable_returns_neutral_without_call_witness:
  "\<not> isSupabaseAvailable disconnected \<and> is_operation (GetPatientsByClinicCode (JStr ''ANY''))
   \<and> fst (invoke ascii_upper (GetPatientsByClinicCode (JStr ''ANY'')) disconnected) =
       Value (Returned (JArr []))
   \<and> issued (snd (invoke ascii_upper (GetPatientsByClinicCode (JStr ''ANY'')) disconnected)) = []"
  using unavailable_returns_neutral_without_call
    [where w = disconnected and toUpperCase = ascii_upper
       and c = "GetPatientsByClinicCode (JStr ''ANY'')"]
  by (simp add: disconnected_def unavailable_null)

section \<open>Upper-casing\<close>




lemma upper_char_not_lower: "\<not> is_lower (upper_char c)"
proof (cases "is_lower c")
  case True
  then have "of_char (upper_char c) = ((of_char c :: nat) - 32) mod 256"
    by (simp add: upper_char_def)
  moreover have "(of_char c :: nat) - 32 < 256" and "(of_char c :: nat) - 32 < 97"
    using True unfolding is_lower_def by arith+
  ultimately have "(of_char (upper_char c) :: nat) < 97"
    by simp
  then show ?thesis
    by (simp add: is_lower_def)
next
  case False
  then show ?thesis by (simp add: upper_char_def)
qed

lemma ascii_upper_no_lower: "\<forall>c \<in> set (ascii_upper s). \<not> is_lower c"
  by (simp add: ascii_upper_def upper_char_not_lower)

lemma ascii_upper_abc: "ascii_upper ''abc'' = ''ABC''"
  by code_simp




section \<open>The mapping built by \<^verbatim>\<open>getAllClinics\<close>\<close>

lemma map_of_put_own: "map_of (put_own k v kvs) = (map_of kvs)(k \<mapsto> v)"
  by (induction kvs) (auto simp: fun_upd_twist)

lemma keys_put_own: "fst ` set (put_own k v kvs) = insert k (fst ` set kvs)"
proof -
  have "dom (map_of (put_own k v kvs)) = dom ((map_of kvs)(k \<mapsto> v))"
    by (simp only: map_of_put_own)
  then show ?thesis
    by (simp add: dom_map_of_conv_image_fst)
qed

lemma distinct_put_own: "distinct (map fst kvs) \<Longrightarrow> distinct (map fst (put_own k v kvs))"
proof (induction kvs)
  case Nil
  then show ?case by simp
next
  case (Cons p kvs)
  obtain k' v' where p: "p = (k', v')" by (cases p)
  show ?case
  proof (cases "k = k'")
    case True
    with Cons.prems p show ?thesis by simp
  next
    case False
    have "k' \<notin> set (map fst (put_own k v kvs))"
      using Cons.prems p False by (simp add: keys_put_own)
    with Cons p False show ?thesis by simp
  qed
qed

text \<open>What an assignment does to the own properties: under every name but
  \<^verbatim>\<open>__proto__\<close> it is a plain update.\<close>

lemma assign_cases:
  "own (assign k v obj) = put_own k v (own obj) \<or> (k = ''__proto__'' \<and> own (assign k v obj) = own obj)"
  by (auto simp: assign_def split: jsval.splits)

lemma assign_plain:
  "k \<noteq> ''__proto__'' \<Longrightarrow> assign k v obj = obj\<lparr>own := put_own k v (own obj)\<rparr>"
  by (simp add: assign_def)

lemma assign_lookup:
  "k' \<noteq> ''__proto__'' \<Longrightarrow>
   map_of (own (assign k v obj)) k' = ((map_of (own obj))(k \<mapsto> v)) k'"
  using assign_cases [of k v obj] by (auto simp: map_of_put_own)

lemma assign_keys:
  "set (own_keys (assign k v obj)) - {''__proto__''} =
   insert k (set (own_keys obj)) - {''__proto__''}"
proof -
  from assign_cases [of k v obj] show ?thesis
  proof
    assume a: "own (assign k v obj) = put_own k v (own obj)"
    have "set (own_keys (assign k v obj)) = insert k (set (own_keys obj))"
      unfolding own_keys_def a by (simp add: keys_put_own)
    then show ?thesis by simp
  next
    assume "k = ''__proto__'' \<and> own (assign k v obj) = own obj"
    then show ?thesis by (auto simp: own_keys_def)
  qed
qed

lemma assign_distinct: "distinct (own_keys obj) \<Longrightarrow> distinct (own_keys (assign k v obj))"
  using assign_cases [of k v obj] by (auto simp: own_keys_def distinct_put_own)

lemma map_of_keyed: "map_of (map (\<lambda>r. (f r, r)) xs) k = find (\<lambda>r. f r = k) xs"
  by (induction xs) auto

lemma find_row_key:
  assumes "keyed_rows rows"
  shows "find (\<lambda>r. the (row_key r) = k) (rev rows) = find (\<lambda>r. row_key r = Some k) (rev rows)"
proof (rule find_cong)
  show "rev rows = rev rows" by simp
next
  fix r assume "r \<in> set (rev rows)"
  then have "row_key r \<noteq> None"
    using assms by (simp add: keyed_rows_def)
  then show "(the (row_key r) = k) = (row_key r = Some k)" by auto
qed

lemma store_clinics_keyed:
  assumes "keyed_rows rows"
  shows "\<exists>obj'. store_clinics rows obj = Inr obj' \<and>
           (\<forall>k. k \<noteq> ''__proto__'' \<longrightarrow>
              map_of (own obj') k =
                (map_of (own obj) ++ map_of (rev (map (\<lambda>r. (the (row_key r), r)) rows))) k) \<and>
           set (own_keys obj') - {''__proto__''} =
             (set (own_keys obj) \<union> (\<lambda>r. the (row_key r)) ` set rows) - {''__proto__''} \<and>
           (distinct (own_keys obj) \<longrightarrow> distinct (own_keys obj'))"
  using assms
proof (induction rows arbitrary: obj)
  case Nil
  then show ?case by simp
next
  case (Cons r rows)
  from Cons.prems obtain k where k: "row_key r = Some k"
    by (auto simp: keyed_rows_def)
  then obtain code where code: "get_prop r ''clinic_code'' = Inr code" "to_property_key code = Inr k"
    by (auto simp: row_key_def split: sum.splits)
  let ?obj1 = "assign k r obj"
  from Cons.prems have "keyed_rows rows"
    by (simp add: keyed_rows_def)
  from Cons.IH [OF this, of ?obj1] obtain obj' where
    s: "store_clinics rows ?obj1 = Inr obj'" and
    m: "\<And>k'. k' \<noteq> ''__proto__'' \<Longrightarrow> map_of (own obj') k' =
          (map_of (own ?obj1) ++ map_of (rev (map (\<lambda>r. (the (row_key r), r)) rows))) k'" and
    ks: "set (own_keys obj') - {''__proto__''} =
          (set (own_keys ?obj1) \<union> (\<lambda>r. the (row_key r)) ` set rows) - {''__proto__''}" and
    d: "distinct (own_keys ?obj1) \<longrightarrow> distinct (own_keys obj')"
    by blast
  have "store_clinics (r # rows) obj = Inr obj'"
    using s code by simp
  moreover have "map_of (own obj') k' =
      (map_of (own obj) ++ map_of (rev (map (\<lambda>r. (the (row_key r), r)) (r # rows)))) k'"
    if "k' \<noteq> ''__proto__''" for k'
    using m [OF that] assign_lookup [OF that, of k r obj] k
    by (simp add: map_add_def split: option.splits)
  moreover have "set (own_keys obj') - {''__proto__''} =
      (set (own_keys obj) \<union> (\<lambda>r. the (row_key r)) ` set (r # rows)) - {''__proto__''}"
    using ks assign_keys [of k r obj] k by auto
  moreover have "distinct (own_keys obj) \<longrightarrow> distinct (own_keys obj')"
    using d assign_distinct [of obj k r] by blast
  ultimately show ?case by blast
qed

text \<open>A row without a key ends the loop with the exception.\<close>

lemma store_clinics_unkeyed:
  "\<not> keyed_rows rows \<Longrightarrow> \<exists>e. store_clinics rows obj = Inl e"
proof (induction rows arbitrary: obj)
  case Nil
  then show ?case by (simp add: keyed_rows_def)
next
  case (Cons r rows)
  show ?case
  proof (cases "row_key r")
    case None
    then show ?thesis
      by (auto simp: row_key_def split: sum.splits)
  next
    case (Some k)
    then have "\<not> keyed_rows rows"
      using Cons.prems by (simp add: keyed_rows_def)
    then show ?thesis
      using Cons.IH Some by (auto simp: row_key_def split: sum.splits)
  qed
qed

lemma store_clinics_proto:
  assumes "\<forall>r \<in> set rows. row_key r \<noteq> Some ''__proto__''"
    and "store_clinics rows obj = Inr obj'"
  shows "proto obj' = proto obj \<and> (''__proto__'' \<in> set (own_keys obj') \<longleftrightarrow> ''__proto__'' \<in> set (own_keys obj))"
  using assms
proof (induction rows arbitrary: obj)
  case Nil
  then show ?case by simp
next
  case (Cons r rows)
  from Cons.prems(2) obtain code k where
    code: "get_prop r ''clinic_code'' = Inr code" "to_property_key code = Inr k" and
    s: "store_clinics rows (assign k r obj) = Inr obj'"
    by (auto split: sum.splits)
  have k: "k \<noteq> ''__proto__''"
    using Cons.prems(1) code by (auto simp: row_key_def)
  have "proto obj' = proto (assign k r obj) \<and>
    (''__proto__'' \<in> set (own_keys obj') \<longleftrightarrow> ''__proto__'' \<in> set (own_keys (assign k r obj)))"
    using Cons.IH [OF _ s] Cons.prems(1) by simp
  then show ?case
    using k by (simp add: assign_plain own_keys_def keys_put_own)
qed

lemma getAllClinics_connected:
  assumes "supabase w = Client client"
    and "destructure (fst (client (backend w) getAllClinics_query)) = Inr (data, error)"
    and "\<not> truthy error"
  shows "fst (getAllClinics w) =
    (if truthy data then
       (case forEach_clinic data empty_object of
          Inl e \<Rightarrow> Returned empty_object
        | Inr obj \<Rightarrow> Returned obj)
     else Returned empty_object)"
  using assms
  by (auto simp: getAllClinics_def getAllClinics_try_def gate_defs available_Client
      split: prod.splits sum.splits)

lemma getAllClinics_keyed_rows:
  assumes "supabase w = Client client"
    and "destructure (fst (client (backend w) getAllClinics_query)) = Inr (JArr rows, error)"
    and "\<not> truthy error"
    and "keyed_rows rows"
  shows "\<exists>obj. fst (getAllClinics w) = Returned obj \<and>
           (\<forall>k. k \<noteq> ''__proto__'' \<longrightarrow>
              own_property obj k = find (\<lambda>r. row_key r = Some k) (rev rows)) \<and>
           set (own_keys obj) - {''__proto__''} =
             {k. \<exists>r \<in> set rows. row_key r = Some k} - {''__proto__''} \<and>
           distinct (own_keys obj)"
proof -
  from store_clinics_keyed [OF assms(4), of empty_object] obtain obj where
    s: "store_clinics rows empty_object = Inr obj" and
    m: "\<And>k. k \<noteq> ''__proto__'' \<Longrightarrow> map_of (own obj) k =
          (map_of (own empty_object) ++ map_of (rev (map (\<lambda>r. (the (row_key r), r)) rows))) k" and
    ks: "set (own_keys obj) - {''__proto__''} =
          (set (own_keys empty_object) \<union> (\<lambda>r. the (row_key r)) ` set rows) - {''__proto__''}" and
    d: "distinct (own_keys empty_object) \<longrightarrow> distinct (own_keys obj)"
    by blast
  have "fst (getAllClinics w) = Returned obj"
    using getAllClinics_connected [OF assms(1-3)] s by (simp add: forEach_clinic_def)
  moreover have "own_property obj k = find (\<lambda>r. row_key r = Some k) (rev rows)"
    if "k \<noteq> ''__proto__''" for k
  proof -
    have "own_property obj k = map_of (map (\<lambda>r. (the (row_key r), r)) (rev rows)) k"
      using m [OF that] by (simp add: own_property_def empty_object_def rev_map)
    also have "\<dots> = find (\<lambda>r. the (row_key r) = k) (rev rows)"
      by (rule map_of_keyed)
    finally show ?thesis
      using find_row_key [OF assms(4)] by simp
  qed
  moreover have "set (own_keys obj) - {''__proto__''} =
      {k. \<exists>r \<in> set rows. row_key r = Some k} - {''__proto__''}"
  proof -
    have "(\<lambda>r. the (row_key r)) ` set rows = {k. \<exists>r \<in> set rows. row_key r = Some k}"
      using assms(4) by (force simp: keyed_rows_def)
    then show ?thesis
      using ks by (simp add: own_keys_def empty_object_def)
  qed
  moreover have "distinct (own_keys obj)"
    using d by (simp add: own_keys_def empty_object_def)
  ultimately show ?thesis by blast
qed

lemma plain_rows_keyed: "plain_rows rows \<Longrightarrow> keyed_rows rows"
  by (auto simp: plain_rows_def keyed_rows_def)

lemma getAllClinics_plain_rows:
  assumes "supabase w = Client client"
    and "destructure (fst (client (backend w) getAllClinics_query)) = Inr (JArr rows, error)"
    and "\<not> truthy error"
    and "plain_rows rows"
  shows "\<exists>obj. fst (getAllClinics w) = Returned obj \<and> proto obj = ObjectPrototype \<and>
           (\<forall>k. own_property obj k = find (\<lambda>r. row_key r = Some k) (rev rows)) \<and>
           set (own_keys obj) = {k. \<exists>r \<in> set rows. row_key r = Some k} \<and>
           distinct (own_keys obj)"
proof -
  have keyed: "keyed_rows rows"
    using assms(4) by (rule plain_rows_keyed)
  have no_proto: "\<forall>r \<in> set rows. row_key r \<noteq> Some ''__proto__''"
    using assms(4) by (auto simp: plain_rows_def)
  from store_clinics_keyed [OF keyed, of empty_object] obtain obj where
    s: "store_clinics rows empty_object = Inr obj"
    by blast
  have r: "fst (getAllClinics w) = Returned obj"
    using getAllClinics_connected [OF assms(1-3)] s by (simp add: forEach_clinic_def)
  from getAllClinics_keyed_rows [OF assms(1-3) keyed] r have
    look: "\<And>k. k \<noteq> ''__proto__'' \<Longrightarrow>
             own_property obj k = find (\<lambda>r. row_key r = Some k) (rev rows)" and
    ks: "set (own_keys obj) - {''__proto__''} =
           {k. \<exists>r \<in> set rows. row_key r = Some k} - {''__proto__''}" and
    d: "distinct (own_keys obj)"
    by auto
  from store_clinics_proto [OF no_proto s] have
    p: "proto obj = ObjectPrototype" and np: "''__proto__'' \<notin> set (own_keys obj)"
    by (simp_all add: empty_object_def own_keys_def)
  have "own_property obj k = find (\<lambda>r. row_key r = Some k) (rev rows)" for k
  proof (cases "k = ''__proto__''")
    case True
    have "own_property obj ''__proto__'' = None"
      using np by (simp add: own_property_def own_keys_def map_of_eq_None_iff)
    moreover have "find (\<lambda>r. row_key r = Some ''__proto__'') (rev rows) = None"
      using no_proto by (simp add: find_None_iff)
    ultimately show ?thesis using True by simp
  next
    case False
    then show ?thesis by (rule look)
  qed
  moreover have "set (own_keys obj) = {k. \<exists>r \<in> set rows. row_key r = Some k}"
    using ks np no_proto by auto
  ultimately show ?thesis
    using r p d by blast
qed

lemma getAllClinics_unkeyed_rows:
  assumes "supabase w = Client client"
    and "destructure (fst (client (backend w) getAllClinics_query)) = Inr (JArr rows, error)"
    and "\<not> truthy error"
    and "\<not> keyed_rows rows"
  shows "fst (getAllClinics w) = Returned empty_object"
  using getAllClinics_connected [OF assms(1-3)] store_clinics_unkeyed [OF assms(4), of empty_object]
  by (auto simp: forEach_clinic_def)

lemma row_key_string:
  "map_of kvs ''clinic_code'' = Some (JStr s) \<Longrightarrow> row_key (JObj kvs) = Some s"
  by (simp add: row_key_def)

section \<open>Initialisation\<close>




lemma module_load_Inr:
  "module_load required env_url env_key b = Inr w \<longleftrightarrow>
   (\<exists>h. init_supabase required env_url env_key = Inr h \<and>
        w = \<lparr>supabase = h, backend = b, issued = []\<rparr>)"
  by (auto simp: module_load_def split: sum.splits)

lemmas load_defs = module_load_def init_supabase_def load_createClient_def env_or_empty_def
  constructor_returning_def constructor_throwing_def

text \<open>A constructor that throws \<^verbatim>\<open>null\<close> makes loading the module throw.\<close>

lemma module_load_throws:
  "module_load (Inr (Some (constructor_throwing (Raised JNull))))
     (Some ''https://db.example'') (Some ''secret'') () = Inl TypeError"
  by (simp add: load_defs)




section \<open>The handle never changes\<close>

lemma invoke_available:
  "isSupabaseAvailable (snd (invoke toUpperCase c w)) = isSupabaseAvailable w"
  by (simp add: available_iff invoke_supabase)

lemma invoke_flag: "fst (invoke toUpperCase c w) = Flag f \<Longrightarrow> f = isSupabaseAvailable w"
  by (cases c) (auto split: prod.splits)

lemma run_calls_supabase: "supabase (snd (run_calls toUpperCase cs w)) = supabase w"
proof (induction cs arbitrary: w)
  case Nil
  then show ?case by simp
next
  case (Cons c cs)
  obtain r w' where i: "invoke toUpperCase c w = (r, w')"
    by (cases "invoke toUpperCase c w")
  obtain rs w'' where rc: "run_calls toUpperCase cs w' = (rs, w'')"
    by (cases "run_calls toUpperCase cs w'")
  have "supabase w'' = supabase w'"
    using Cons.IH [of w'] rc by simp
  also have "\<dots> = supabase w"
    using invoke_supabase [of toUpperCase c w] i by simp
  finally show ?case
    using i rc by simp
qed

lemma run_calls_flags:
  "Flag f \<in> set (fst (run_calls toUpperCase cs w)) \<Longrightarrow> f = isSupabaseAvailable w"
proof (induction cs arbitrary: w)
  case Nil
  then show ?case by simp
next
  case (Cons c cs)
  obtain r w' where i: "invoke toUpperCase c w = (r, w')"
    by (cases "invoke toUpperCase c w")
  obtain rs w'' where rc: "run_calls toUpperCase cs w' = (rs, w'')"
    by (cases "run_calls toUpperCase cs w'")
  from Cons.prems i rc have "Flag f = r \<or> Flag f \<in> set rs" by auto
  then show ?case
  proof
    assume "Flag f = r"
    then show ?thesis using invoke_flag [of toUpperCase c w f] i by simp
  next
    assume "Flag f \<in> set rs"
    then have "f = isSupabaseAvailable w'"
      using Cons.IH [of w'] rc by simp
    then show ?thesis
      using invoke_available [of toUpperCase c w] i by simp
  qed
qed

text \<open>
  C8. No call changes the handle: after any run of calls it is what it was before, so
  is the answer of \<^verbatim>\<open>isSupabaseAvailable()\<close>, and every answer \<^verbatim>\<open>isSupabaseAvailable()\<close>
  gave during the run is that same value. After loading, the handle is what the one
  assignment of the initialisation made it.
\<close>

theorem availability_fixed_after_load:
  "supabase (snd (run_calls toUpperCase cs w)) = supabase w \<and>
   isSupabaseAvailable (snd (run_calls toUpperCase cs w)) = isSupabaseAvailable w \<and>
   (\<forall>f. Flag f \<in> set (fst (run_calls toUpperCase cs w)) \<longrightarrow> f = isSupabaseAvailable w) \<and>
   (module_load required env_url env_key b = Inr loaded \<longrightarrow>
      init_supabase required env_url env_key = Inr (supabase loaded) \<and>
      supabase (snd (run_calls toUpperCase cs loaded)) = supabase loaded)"
proof -
  have A: "supabase (snd (run_calls toUpperCase cs w)) = supabase w"
    by (rule run_calls_supabase)
  then have B: "isSupabaseAvailable (snd (run_calls toUpperCase cs w)) = isSupabaseAvailable w"
    by (simp add: available_iff)
  have C: "\<forall>f. Flag f \<in> set (fst (run_calls toUpperCase cs w)) \<longrightarrow> f = isSupabaseAvailable w"
    using run_calls_flags [of _ toUpperCase cs w] by blast
  have D: "module_load required env_url env_key b = Inr loaded \<longrightarrow>
      init_supabase required env_url env_key = Inr (supabase loaded) \<and>
      supabase (snd (run_calls toUpperCase cs loaded)) = supabase loaded"
  proof
    assume "module_load required env_url env_key b = Inr loaded"
    then obtain h where "init_supabase required env_url env_key = Inr h" and "supabase loaded = h"
      by (auto simp: module_load_Inr)
    then show "init_supabase required env_url env_key = Inr (supabase loaded) \<and>
      supabase (snd (run_calls toUpperCase cs loaded)) = supabase loaded"
      using run_calls_supabase [of toUpperCase cs loaded] by simp
  qed
  from A B C D show ?thesis by (intro conjI)
qed

theorem availability_fixed_after_load_witness:
  "fst (run_calls ascii_upper
         [IsSupabaseAvailable, CreateClinic (clinic_row ''X'' ''N''), GetAllClinics, IsSupabaseAvailable]
         (connected (ok_response JNull))) =
     [Flag True, Value (Returned JNull), Object (Returned empty_object), Flag True]
   \<and> isSupabaseAvailable (connected (ok_response JNull))
   \<and> isSupabaseAvailable
       (snd (run_calls ascii_upper
         [IsSupabaseAvailable, CreateClinic (clinic_row ''X'' ''N''), GetAllClinics, IsSupabaseAvailable]
         (connected (ok_response JNull))))
   \<and> module_load (Inr (Some (constructor_returning (Client (fixed_client (ok_response JNull))))))
       (Some ''https://db.example'') (Some ''secret'') () = Inr (connected (ok_response JNull))"
proof -
  let ?cs = "[IsSupabaseAvailable, CreateClinic (clinic_row ''X'' ''N''), GetAllClinics,
    IsSupabaseAvailable]"
  let ?w = "connected (ok_response JNull)"
  have a: "isSupabaseAvailable ?w"
    by (simp add: connected_def available_Client)
  have l: "module_load (Inr (Some (constructor_returning (Client (fixed_client (ok_response JNull))))))
       (Some ''https://db.example'') (Some ''secret'') () = Inr ?w"
    by (simp add: load_defs connected_def)
  have r: "fst (run_calls ascii_upper ?cs ?w) =
     [Flag True, Value (Returned JNull), Object (Returned empty_object), Flag True]"
    by (simp add: facade_defs gate_defs double_defs available_iff destructure_def
        createClinic_query_def getAllClinics_query_def q_from_def q_select_def q_insert_def
        q_single_def)
  note t = availability_fixed_after_load [where toUpperCase = ascii_upper and cs = ?cs and w = ?w]
  have "isSupabaseAvailable (snd (run_calls ascii_upper ?cs ?w)) = isSupabaseAvailable ?w"
    by (rule t [THEN conjunct2, THEN conjunct1])
  then have "isSupabaseAvailable (snd (run_calls ascii_upper ?cs ?w))"
    using a by simp
  with r a l show ?thesis by (intro conjI)
qed

section \<open>The queries sent\<close>

lemmas query_defs = getClinicByCode_query_def getAllClinics_query_def createClinic_query_def
  updateClinic_query_def getPatientById_query_def getPatientsByClinicCode_query_def
  createPatient_query_def updatePatient_query_def
  q_from_def q_select_def q_insert_def q_update_def q_eq_def q_single_def

lemma getClinicByCode_issued:
  "supabase w = Client client \<Longrightarrow>
   issued (snd (getClinicByCode toUpperCase (JStr s) w)) =
     issued w @ [\<lparr>table = ''clinics'',
                  steps = [Select (Some ''*''), Eq ''clinic_code'' (JStr (toUpperCase s)), Single]\<rparr>]"
  by (auto simp: facade_defs gate_defs query_defs available_Client split: prod.splits sum.splits)

lemma updateClinic_issued:
  "supabase w = Client client \<Longrightarrow>
   issued (snd (updateClinic toUpperCase (JStr s) u w)) =
     issued w @ [\<lparr>table = ''clinics'',
                  steps = [Update u, Eq ''clinic_code'' (JStr (toUpperCase s)), Select None, Single]\<rparr>]"
  by (auto simp: facade_defs gate_defs query_defs available_Client split: prod.splits sum.splits)

lemma getPatientsByClinicCode_issued:
  "supabase w = Client client \<Longrightarrow>
   issued (snd (getPatientsByClinicCode toUpperCase (JStr s) w)) =
     issued w @ [\<lparr>table = ''patients'',
                  steps = [Select (Some ''*''), Eq ''clinic_code'' (JStr (toUpperCase s))]\<rparr>]"
  by (auto simp: facade_defs gate_defs query_defs available_Client split: prod.splits sum.splits)








section \<open>Codes that cannot be upper-cased\<close>

lemma call_toUpperCase_not_string:
  "\<forall>s. code \<noteq> JStr s \<Longrightarrow> call_toUpperCase toUpperCase code = Inl TypeError"
  by (cases code) simp_all

text \<open>
  C10. With the connection there, \<^verbatim>\<open>getClinicByCode\<close>, \<^verbatim>\<open>updateClinic\<close> and
  \<^verbatim>\<open>getPatientsByClinicCode\<close> called with a code that is not a string (\<^verbatim>\<open>null\<close>,
  \<^verbatim>\<open>undefined\<close>, ...) return the neutral value, \<^verbatim>\<open>null\<close> or \<^verbatim>\<open>[]\<close>: the
  \<^verbatim>\<open>TypeError\<close> of \<^verbatim>\<open>clinicCode.toUpperCase()\<close> is raised inside the \<^verbatim>\<open>try\<close>.
  Nothing is sent and nothing changes.
\<close>

theorem code_without_toUpperCase_gives_neutral:
  "supabase w = Client client \<and> (\<forall>s. code \<noteq> JStr s) \<longrightarrow>
     getClinicByCode toUpperCase code w = (Returned JNull, w) \<and>
     updateClinic toUpperCase code updates w = (Returned JNull, w) \<and>
     getPatientsByClinicCode toUpperCase code w = (Returned (JArr []), w)"
  using call_toUpperCase_not_string [of code toUpperCase]
  by (auto simp: facade_defs gate_defs available_Client)

theorem code_without_toUpperCase_gives_neutral_witness:
  "supabase (connected (ok_response (JArr [clinic_row ''A'' ''N'']))) =
     Client (fixed_client (ok_response (JArr [clinic_row ''A'' ''N''])))
   \<and> (\<forall>s. JNull \<noteq> JStr s)
   \<and> fst (getClinicByCode ascii_upper JNull (connected (ok_response (JArr [clinic_row ''A'' ''N''])))) =
       Returned JNull
   \<and> fst (updateClinic ascii_upper JNull (JObj []) (connected (ok_response (JArr [clinic_row ''A'' ''N''])))) =
       Returned JNull
   \<and> fst (getPatientsByClinicCode ascii_upper JNull (connected (ok_response (JArr [clinic_row ''A'' ''N''])))) =
       Returned (JArr [])
   \<and> issued (snd (getPatientsByClinicCode ascii_upper JNull
                    (connected (ok_response (JArr [clinic_row ''A'' ''N'']))))) = []"
  using code_without_toUpperCase_gives_neutral
    [where w = "connected (ok_response (JArr [clinic_row ''A'' ''N'']))"
       and client = "fixed_client (ok_response (JArr [clinic_row ''A'' ''N'']))"
       and code = JNull and updates = "JObj []" and toUpperCase = ascii_upper]
  by (simp add: connected_def)

section \<open>Errors and data\<close>

lemma destructure_error_response: "destructure (error_response data error) = Inr (data, error)"
  by (simp add: error_response_def destructure_def)

text \<open>
  C9. In every operation an error wins over data: when the result of the remote call
  carries a truthy \<^verbatim>\<open>error\<close> (every object is truthy), the operation returns its
  neutral value whatever \<^verbatim>\<open>data\<close> the result carries with it.
\<close>

theorem error_takes_precedence_over_data:
  "supabase w = Client client \<and> is_operation c \<and> query_of toUpperCase c = Some q \<and>
   destructure (fst (client (backend w) q)) = Inr (data, error) \<and> truthy error
   \<longrightarrow> fst (invoke toUpperCase c w) = neutral_of c"
  using invoke_failure [where w = w and client = client and c = c and toUpperCase = toUpperCase]
  by (auto simp: reports_error_def)

theorem error_takes_precedence_over_data_witness:
  "supabase (connected (error_response (JArr [clinic_row ''A'' ''N'']) (JObj [(''message'', JStr ''denied'')]))) =
     Client (fixed_client (error_response (JArr [clinic_row ''A'' ''N'']) (JObj [(''message'', JStr ''denied'')])))
   \<and> is_operation GetAllClinics \<and> query_of ascii_upper GetAllClinics = Some getAllClinics_query
   \<and> destructure (fst (fixed_client (error_response (JArr [clinic_row ''A'' ''N''])
         (JObj [(''message'', JStr ''denied'')])) () getAllClinics_query)) =
       Inr (JArr [clinic_row ''A'' ''N''], JObj [(''message'', JStr ''denied'')])
   \<and> truthy (JObj [(''message'', JStr ''denied'')])
   \<and> fst (invoke ascii_upper GetAllClinics
        (connected (error_response (JArr [clinic_row ''A'' ''N'']) (JObj [(''message'', JStr ''denied'')])))) =
      Object (Returned empty_object)"
  using error_takes_precedence_over_data
    [where w = "connected (error_response (JArr [clinic_row ''A'' ''N'']) (JObj [(''message'', JStr ''denied'')]))"
       and client = "fixed_client (error_response (JArr [clinic_row ''A'' ''N'']) (JObj [(''message'', JStr ''denied'')]))"
       and c = GetAllClinics and q = getAllClinics_query and toUpperCase = ascii_upper
       and data = "JArr [clinic_row ''A'' ''N'']" and error = "JObj [(''message'', JStr ''denied'')]"]
  by (simp add: connected_def fixed_client_def destructure_error_response)

section \<open>Patients of a clinic\<close>

lemma getPatientsByClinicCode_connected:
  assumes "supabase w = Client client"
  shows "fst (getPatientsByClinicCode toUpperCase (JStr s) w) =
    (case destructure (fst (client (backend w)
             (getPatientsByClinicCode_query (JStr (toUpperCase s))))) of
       Inl e \<Rightarrow> Returned (JArr [])
     | Inr (data, error) \<Rightarrow>
         if truthy error then Returned (JArr [])
         else if truthy data then Returned data
         else Returned (JArr []))"
  using assms
  by (auto simp: getPatientsByClinicCode_def getPatientsByClinicCode_try_def gate_defs
      available_Client split: prod.splits sum.splits)

lemma getPatientsByClinicCode_never_null:
  "\<exists>v. fst (getPatientsByClinicCode toUpperCase code w) = Returned v \<and> v \<noteq> JNull \<and> v \<noteq> JUndefined"
  by (cases "supabase w")
    (auto simp: getPatientsByClinicCode_def getPatientsByClinicCode_try_def gate_defs
      split: prod.splits sum.splits)

lemma getPatientsByClinicCode_not_client:
  "supabase w = NotClient h \<Longrightarrow> fst (getPatientsByClinicCode toUpperCase code w) = Returned (JArr [])"
  by (simp add: getPatientsByClinicCode_def getPatientsByClinicCode_try_def gate_defs)

lemma getPatientsByClinicCode_not_string:
  "\<forall>s. code \<noteq> JStr s \<Longrightarrow> fst (getPatientsByClinicCode toUpperCase code w) = Returned (JArr [])"
  using call_toUpperCase_not_string [of code toUpperCase]
  by (cases "supabase w")
    (simp_all add: getPatientsByClinicCode_def getPatientsByClinicCode_try_def gate_defs)

lemma destructure_ok_response: "destructure (ok_response data) = Inr (data, JNull)"
  by (simp add: ok_response_def destructure_def)

text \<open>
  C7, as stated, fails: \<^verbatim>\<open>data || []\<close> hands on whatever truthy \<open>data\<close> the remote call
  resolved with. Here it is an object, and the operation returns that object, which is
  not a sequence.
\<close>

theorem getPatientsByClinicCode_passes_object_through:
  "fst (getPatientsByClinicCode ascii_upper (JStr ''Z'')
         (connected (ok_response (JObj [(''count'', JNum ''2'')])))) =
     Returned (JObj [(''count'', JNum ''2'')])
   \<and> \<not> is_sequence (JObj [(''count'', JNum ''2'')])"
  by (simp add: getPatientsByClinicCode_def getPatientsByClinicCode_try_def gate_defs
      available_iff double_defs destructure_def)

text \<open>
  C7, amended. \<^verbatim>\<open>getPatientsByClinicCode\<close> always returns, and never \<^verbatim>\<open>null\<close> or
  \<^verbatim>\<open>undefined\<close>. It returns \<^verbatim>\<open>[]\<close> when the handle is not a client, when the code is
  not a string, when the remote call throws or reports an error, and when the call
  succeeds with a \<open>data\<close> that is \<^verbatim>\<open>null\<close> or falsy otherwise. When the call succeeds
  with a truthy \<open>data\<close> it returns that \<open>data\<close> as it is: an array of rows, the empty one
  included, comes back unchanged in the order of the service. So the result is a
  sequence whenever the service answers a successful call with an array or with
  something falsy.
\<close>

theorem getPatientsByClinicCode_returns_sequence:
  "(\<exists>v. fst (getPatientsByClinicCode toUpperCase code w) = Returned v \<and> v \<noteq> JNull \<and> v \<noteq> JUndefined) \<and>
   (supabase w = NotClient h \<longrightarrow>
      fst (getPatientsByClinicCode toUpperCase code w) = Returned (JArr [])) \<and>
   ((\<forall>s. code \<noteq> JStr s) \<longrightarrow>
      fst (getPatientsByClinicCode toUpperCase code w) = Returned (JArr [])) \<and>
   (supabase w = Client client \<and>
    r = fst (client (backend w) (getPatientsByClinicCode_query (JStr (toUpperCase s)))) \<longrightarrow>
      (throws r \<or> reports_error r \<longrightarrow>
         fst (getPatientsByClinicCode toUpperCase (JStr s) w) = Returned (JArr [])) \<and>
      (destructure r = Inr (data, error) \<and> \<not> truthy error \<and> \<not> truthy data \<longrightarrow>
         fst (getPatientsByClinicCode toUpperCase (JStr s) w) = Returned (JArr [])) \<and>
      (destructure r = Inr (data, error) \<and> \<not> truthy error \<and> truthy data \<longrightarrow>
         fst (getPatientsByClinicCode toUpperCase (JStr s) w) = Returned data) \<and>
      (destructure r = Inr (JArr rows, error) \<and> \<not> truthy error \<longrightarrow>
         fst (getPatientsByClinicCode toUpperCase (JStr s) w) = Returned (JArr rows)) \<and>
      ((\<forall>d e. destructure r = Inr (d, e) \<and> \<not> truthy e \<and> truthy d \<longrightarrow> is_sequence d) \<longrightarrow>
         (\<exists>xs. fst (getPatientsByClinicCode toUpperCase (JStr s) w) = Returned (JArr xs))))"
proof -
  have A: "\<exists>v. fst (getPatientsByClinicCode toUpperCase code w) = Returned v \<and> v \<noteq> JNull \<and> v \<noteq> JUndefined"
    by (rule getPatientsByClinicCode_never_null)
  have B: "supabase w = NotClient h \<longrightarrow>
      fst (getPatientsByClinicCode toUpperCase code w) = Returned (JArr [])"
    by (simp add: getPatientsByClinicCode_not_client)
  have B': "(\<forall>s. code \<noteq> JStr s) \<longrightarrow>
      fst (getPatientsByClinicCode toUpperCase code w) = Returned (JArr [])"
    using getPatientsByClinicCode_not_string [of code toUpperCase w] by blast
  have C: "supabase w = Client client \<and>
    r = fst (client (backend w) (getPatientsByClinicCode_query (JStr (toUpperCase s)))) \<longrightarrow>
      (throws r \<or> reports_error r \<longrightarrow>
         fst (getPatientsByClinicCode toUpperCase (JStr s) w) = Returned (JArr [])) \<and>
      (destructure r = Inr (data, error) \<and> \<not> truthy error \<and> \<not> truthy data \<longrightarrow>
         fst (getPatientsByClinicCode toUpperCase (JStr s) w) = Returned (JArr [])) \<and>
      (destructure r = Inr (data, error) \<and> \<not> truthy error \<and> truthy data \<longrightarrow>
         fst (getPatientsByClinicCode toUpperCase (JStr s) w) = Returned data) \<and>
      (destructure r = Inr (JArr rows, error) \<and> \<not> truthy error \<longrightarrow>
         fst (getPatientsByClinicCode toUpperCase (JStr s) w) = Returned (JArr rows)) \<and>
      ((\<forall>d e. destructure r = Inr (d, e) \<and> \<not> truthy e \<and> truthy d \<longrightarrow> is_sequence d) \<longrightarrow>
         (\<exists>xs. fst (getPatientsByClinicCode toUpperCase (JStr s) w) = Returned (JArr xs)))"
  proof (intro impI, elim conjE)
    assume c: "supabase w = Client client"
      and r: "r = fst (client (backend w) (getPatientsByClinicCode_query (JStr (toUpperCase s))))"
    note e = getPatientsByClinicCode_connected [OF c, of toUpperCase s, folded r]
    have 1: "throws r \<or> reports_error r \<longrightarrow>
         fst (getPatientsByClinicCode toUpperCase (JStr s) w) = Returned (JArr [])"
      unfolding e
      by (cases r) (auto simp: reports_error_def destructure_def split: sum.splits)
    have 2: "destructure r = Inr (data, error) \<and> \<not> truthy error \<and> \<not> truthy data \<longrightarrow>
         fst (getPatientsByClinicCode toUpperCase (JStr s) w) = Returned (JArr [])"
      unfolding e by simp
    have 3: "destructure r = Inr (data, error) \<and> \<not> truthy error \<and> truthy data \<longrightarrow>
         fst (getPatientsByClinicCode toUpperCase (JStr s) w) = Returned data"
      unfolding e by simp
    have 4: "destructure r = Inr (JArr rows, error) \<and> \<not> truthy error \<longrightarrow>
         fst (getPatientsByClinicCode toUpperCase (JStr s) w) = Returned (JArr rows)"
      unfolding e by simp
    have 5: "(\<forall>d e. destructure r = Inr (d, e) \<and> \<not> truthy e \<and> truthy d \<longrightarrow> is_sequence d) \<longrightarrow>
         (\<exists>xs. fst (getPatientsByClinicCode toUpperCase (JStr s) w) = Returned (JArr xs))"
    proof
      assume contract: "\<forall>d e. destructure r = Inr (d, e) \<and> \<not> truthy e \<and> truthy d \<longrightarrow> is_sequence d"
      show "\<exists>xs. fst (getPatientsByClinicCode toUpperCase (JStr s) w) = Returned (JArr xs)"
      proof (cases "destructure r")
        case (Inl x)
        then show ?thesis unfolding e by simp
      next
        case (Inr p)
        obtain d er where p: "p = (d, er)" by (cases p)
        show ?thesis
        proof (cases "\<not> truthy er \<and> truthy d")
          case True
          then have "is_sequence d"
            using contract Inr p by blast
          then obtain xs where "d = JArr xs"
            by (cases d) simp_all
          then show ?thesis
            unfolding e using Inr p True by simp
        next
          case False
          then show ?thesis
            unfolding e using Inr p by auto
        qed
      qed
    qed
    from 1 2 3 4 5 show "(throws r \<or> reports_error r \<longrightarrow>
         fst (getPatientsByClinicCode toUpperCase (JStr s) w) = Returned (JArr [])) \<and>
      (destructure r = Inr (data, error) \<and> \<not> truthy error \<and> \<not> truthy data \<longrightarrow>
         fst (getPatientsByClinicCode toUpperCase (JStr s) w) = Returned (JArr [])) \<and>
      (destructure r = Inr (data, error) \<and> \<not> truthy error \<and> truthy data \<longrightarrow>
         fst (getPatientsByClinicCode toUpperCase (JStr s) w) = Returned data) \<and>
      (destructure r = Inr (JArr rows, error) \<and> \<not> truthy error \<longrightarrow>
         fst (getPatientsByClinicCode toUpperCase (JStr s) w) = Returned (JArr rows)) \<and>
      ((\<forall>d e. destructure r = Inr (d, e) \<and> \<not> truthy e \<and> truthy d \<longrightarrow> is_sequence d) \<longrightarrow>
         (\<exists>xs. fst (getPatientsByClinicCode toUpperCase (JStr s) w) = Returned (JArr xs)))"
      by (intro conjI)
  qed
  from A B B' C show ?thesis by (intro conjI)
qed

theorem getPatientsByClinicCode_returns_sequence_witness:
  "supabase (connected (ok_response (JArr [JStr ''p2'', JStr ''p1'']))) =
     Client (fixed_client (ok_response (JArr [JStr ''p2'', JStr ''p1''])))
   \<and> destructure (ok_response (JArr [JStr ''p2'', JStr ''p1''])) = Inr (JArr [JStr ''p2'', JStr ''p1''], JNull)
   \<and> \<not> truthy JNull
   \<and> fst (getPatientsByClinicCode ascii_upper (JStr ''z'')
           (connected (ok_response (JArr [JStr ''p2'', JStr ''p1''])))) =
       Returned (JArr [JStr ''p2'', JStr ''p1''])"
proof -
  let ?r = "ok_response (JArr [JStr ''p2'', JStr ''p1''])"
  have s: "supabase (connected ?r) = Client (fixed_client ?r)"
    by (simp add: connected_def)
  have r: "?r = fst (fixed_client ?r (backend (connected ?r))
      (getPatientsByClinicCode_query (JStr (ascii_upper ''z''))))"
    by (simp add: fixed_client_def)
  have d: "destructure ?r = Inr (JArr [JStr ''p2'', JStr ''p1''], JNull)"
    by (rule destructure_ok_response)
  have n: "\<not> truthy JNull" by simp
  note t = getPatientsByClinicCode_returns_sequence
    [where toUpperCase = ascii_upper and code = "JStr ''z''" and w = "connected ?r"
       and client = "fixed_client ?r" and r = ?r and s = "''z''" and data = JNull
       and error = JNull and rows = "[JStr ''p2'', JStr ''p1'']" and h = JNull]
  have c: "supabase (connected ?r) = Client (fixed_client ?r) \<and>
      ?r = fst (fixed_client ?r (backend (connected ?r))
        (getPatientsByClinicCode_query (JStr (ascii_upper ''z''))))"
    using s r by (rule conjI)
  have "destructure ?r = Inr (JArr [JStr ''p2'', JStr ''p1''], JNull) \<and> \<not> truthy JNull \<longrightarrow>
      fst (getPatientsByClinicCode ascii_upper (JStr ''z'') (connected ?r)) =
      Returned (JArr [JStr ''p2'', JStr ''p1''])"
    using t [THEN conjunct2, THEN conjunct2, THEN conjunct2, THEN mp, OF c] by (elim conjE)
  then have "fst (getPatientsByClinicCode ascii_upper (JStr ''z'') (connected ?r)) =
      Returned (JArr [JStr ''p2'', JStr ''p1''])"
    using d n by simp
  with s d n show ?thesis by (intro conjI)
qed

section \<open>Keys of the clinic mapping\<close>

lemmas eval_getAllClinics = getAllClinics_def getAllClinics_try_def gate_defs available_iff
  double_defs destructure_def forEach_clinic_def assign_def empty_object_def
  reaches_proto_setter_def

lemma getAllClinics_duplicate_codes:
  "fst (getAllClinics (connected (ok_response
      (JArr [clinic_row ''A'' ''first'', clinic_row ''B'' ''second'', clinic_row ''A'' ''third''])))) =
   Returned \<lparr>proto = ObjectPrototype,
             own = [(''A'', clinic_row ''A'' ''third''), (''B'', clinic_row ''B'' ''second'')]\<rparr>"
  by (simp add: eval_getAllClinics)

text \<open>A row whose code is an object with a property \<^verbatim>\<open>toString\<close> has no key: the
  conversion throws, and the whole mapping is lost.\<close>

lemma getAllClinics_code_without_key:
  "fst (getAllClinics (connected (ok_response
      (JArr [clinic_row ''A'' ''first'',
             JObj [(''clinic_code'', JObj [(''toString'', JStr ''x'')])]])))) =
   Returned empty_object"
  by (simp add: eval_getAllClinics)

text \<open>
  C3. \<^verbatim>\<open>getAllClinics\<close> files each row under its own code, the last row of a code
  winning (\<open>getAllClinics_plain_rows\<close> and \<open>getAllClinics_duplicate_codes\<close> above), with
  one exception: a row whose code reads \<^verbatim>\<open>__proto__\<close> is not filed at all. The
  assignment reaches the setter of \<^verbatim>\<open>Object.prototype\<close>, the row becomes the prototype
  of the result, and the result has no own key for it.
\<close>

theorem getAllClinics_proto_code_not_stored:
  "fst (getAllClinics (connected (ok_response (JArr [clinic_row ''__proto__'' ''N''])))) =
   Returned \<lparr>proto = ProtoObj [(''clinic_code'', JStr ''__proto__''), (''name'', JStr ''N'')],
             own = []\<rparr>"
  by (simp add: eval_getAllClinics)

text \<open>
  C4, as stated, fails for \<^verbatim>\<open>getAllClinics\<close>: a row whose code is \<^verbatim>\<open>abc\<close> is filed
  under \<^verbatim>\<open>abc\<close>, which is not its upper-cased form.
\<close>

theorem getAllClinics_key_not_uppercased:
  "fst (getAllClinics (connected (ok_response (JArr [clinic_row ''abc'' ''N''])))) =
     Returned \<lparr>proto = ObjectPrototype, own = [(''abc'', clinic_row ''abc'' ''N'')]\<rparr>
   \<and> ascii_upper ''abc'' \<noteq> ''abc''"
  by (simp add: eval_getAllClinics ascii_upper_abc)

text \<open>
  C4, amended. \<^verbatim>\<open>getClinicByCode\<close>, \<^verbatim>\<open>updateClinic\<close> and \<^verbatim>\<open>getPatientsByClinicCode\<close>
  match \<^verbatim>\<open>clinic_code\<close> against what \<^verbatim>\<open>toUpperCase\<close> makes of the code.
  \<^verbatim>\<open>getAllClinics\<close> files each row under the code the service returned, unchanged.
  When every row has a key, the key of a row with a string code being that string, then
  under every name but \<^verbatim>\<open>__proto__\<close> the result holds the last row that has this key,
  or nothing when no row has it, and apart from \<^verbatim>\<open>__proto__\<close> its keys are exactly the
  keys of the rows; rows with the key \<^verbatim>\<open>__proto__\<close> in the list do not change that.
  When some row has no key the result is \<^verbatim>\<open>{}\<close>.
\<close>

theorem clinic_code_keys:
  "(supabase w = Client client \<longrightarrow>
      issued (snd (getClinicByCode toUpperCase (JStr s) w)) =
        issued w @ [\<lparr>table = ''clinics'',
                     steps = [Select (Some ''*''), Eq ''clinic_code'' (JStr (toUpperCase s)), Single]\<rparr>] \<and>
      issued (snd (updateClinic toUpperCase (JStr s) u w)) =
        issued w @ [\<lparr>table = ''clinics'',
                     steps = [Update u, Eq ''clinic_code'' (JStr (toUpperCase s)), Select None, Single]\<rparr>] \<and>
      issued (snd (getPatientsByClinicCode toUpperCase (JStr s) w)) =
        issued w @ [\<lparr>table = ''patients'',
                     steps = [Select (Some ''*''), Eq ''clinic_code'' (JStr (toUpperCase s))]\<rparr>]) \<and>
   (supabase w = Client client \<and>
    destructure (fst (client (backend w) getAllClinics_query)) = Inr (JArr rows, error) \<and>
    \<not> truthy error \<and> keyed_rows rows \<longrightarrow>
      (\<exists>obj. fst (getAllClinics w) = Returned obj \<and>
         (\<forall>k. k \<noteq> ''__proto__'' \<longrightarrow>
            own_property obj k = find (\<lambda>r. row_key r = Some k) (rev rows)) \<and>
         set (own_keys obj) - {''__proto__''} =
           {k. \<exists>r \<in> set rows. row_key r = Some k} - {''__proto__''})) \<and>
   (supabase w = Client client \<and>
    destructure (fst (client (backend w) getAllClinics_query)) = Inr (JArr rows, error) \<and>
    \<not> truthy error \<and> \<not> keyed_rows rows \<longrightarrow>
      fst (getAllClinics w) = Returned empty_object) \<and>
   (map_of kvs ''clinic_code'' = Some (JStr s) \<longrightarrow> row_key (JObj kvs) = Some s)"
proof -
  have A: "supabase w = Client client \<longrightarrow>
      issued (snd (getClinicByCode toUpperCase (JStr s) w)) =
        issued w @ [\<lparr>table = ''clinics'',
                     steps = [Select (Some ''*''), Eq ''clinic_code'' (JStr (toUpperCase s)), Single]\<rparr>] \<and>
      issued (snd (updateClinic toUpperCase (JStr s) u w)) =
        issued w @ [\<lparr>table = ''clinics'',
                     steps = [Update u, Eq ''clinic_code'' (JStr (toUpperCase s)), Select None, Single]\<rparr>] \<and>
      issued (snd (getPatientsByClinicCode toUpperCase (JStr s) w)) =
        issued w @ [\<lparr>table = ''patients'',
                     steps = [Select (Some ''*''), Eq ''clinic_code'' (JStr (toUpperCase s))]\<rparr>]"
    using getClinicByCode_issued [of w client toUpperCase s]
      updateClinic_issued [of w client toUpperCase s u]
      getPatientsByClinicCode_issued [of w client toUpperCase s]
    by blast
  have B: "supabase w = Client client \<and>
    destructure (fst (client (backend w) getAllClinics_query)) = Inr (JArr rows, error) \<and>
    \<not> truthy error \<and> keyed_rows rows \<longrightarrow>
      (\<exists>obj. fst (getAllClinics w) = Returned obj \<and>
         (\<forall>k. k \<noteq> ''__proto__'' \<longrightarrow>
            own_property obj k = find (\<lambda>r. row_key r = Some k) (rev rows)) \<and>
         set (own_keys obj) - {''__proto__''} =
           {k. \<exists>r \<in> set rows. row_key r = Some k} - {''__proto__''})"
    using getAllClinics_keyed_rows [of w client rows error] by blast
  have C: "supabase w = Client client \<and>
    destructure (fst (client (backend w) getAllClinics_query)) = Inr (JArr rows, error) \<and>
    \<not> truthy error \<and> \<not> keyed_rows rows \<longrightarrow>
      fst (getAllClinics w) = Returned empty_object"
    using getAllClinics_unkeyed_rows [of w client rows error] by blast
  have D: "map_of kvs ''clinic_code'' = Some (JStr s) \<longrightarrow> row_key (JObj kvs) = Some s"
    by (simp add: row_key_string)
  from A B C D show ?thesis by (intro conjI)
qed

lemma keyed_rows_mixed:
  "keyed_rows [clinic_row ''abc'' ''N'', clinic_row ''__proto__'' ''P'', clinic_row ''B'' ''M'']"
  by (simp add: keyed_rows_def row_key_def clinic_row_def)

theorem clinic_code_keys_witness:
  "supabase (connected (ok_response
       (JArr [clinic_row ''abc'' ''N'', clinic_row ''__proto__'' ''P'', clinic_row ''B'' ''M'']))) =
     Client (fixed_client (ok_response
       (JArr [clinic_row ''abc'' ''N'', clinic_row ''__proto__'' ''P'', clinic_row ''B'' ''M''])))
   \<and> keyed_rows [clinic_row ''abc'' ''N'', clinic_row ''__proto__'' ''P'', clinic_row ''B'' ''M'']
   \<and> issued (snd (getClinicByCode ascii_upper (JStr ''abc'') (connected (ok_response
       (JArr [clinic_row ''abc'' ''N'', clinic_row ''__proto__'' ''P'', clinic_row ''B'' ''M'']))))) =
       [\<lparr>table = ''clinics'',
         steps = [Select (Some ''*''), Eq ''clinic_code'' (JStr ''ABC''), Single]\<rparr>]
   \<and> (\<exists>obj. fst (getAllClinics (connected (ok_response
         (JArr [clinic_row ''abc'' ''N'', clinic_row ''__proto__'' ''P'', clinic_row ''B'' ''M''])))) =
         Returned obj
       \<and> own_property obj ''abc'' = Some (clinic_row ''abc'' ''N'')
       \<and> own_property obj ''ABC'' = None)
   \<and> row_key (clinic_row ''abc'' ''N'') = Some ''abc''"
proof -
  let ?rows = "[clinic_row ''abc'' ''N'', clinic_row ''__proto__'' ''P'', clinic_row ''B'' ''M'']"
  let ?r = "ok_response (JArr ?rows)"
  have s: "supabase (connected ?r) = Client (fixed_client ?r)"
    by (simp add: connected_def)
  have i: "issued (connected ?r) = []"
    by (simp add: connected_def)
  have d: "destructure (fst (fixed_client ?r (backend (connected ?r)) getAllClinics_query)) =
      Inr (JArr ?rows, JNull)"
    by (simp add: fixed_client_def ok_response_def destructure_def)
  have n: "\<not> truthy JNull" by simp
  have p: "keyed_rows ?rows" by (rule keyed_rows_mixed)
  have m: "map_of [(''clinic_code'', JStr ''abc''), (''name'', JStr ''N'')] ''clinic_code'' =
      Some (JStr ''abc'')"
    by simp
  note t = clinic_code_keys
    [where w = "connected ?r" and client = "fixed_client ?r" and s = "''abc''" and u = "JObj []"
       and rows = ?rows and error = JNull and toUpperCase = ascii_upper
       and kvs = "[(''clinic_code'', JStr ''abc''), (''name'', JStr ''N'')]"]
  have 1: "issued (snd (getClinicByCode ascii_upper (JStr ''abc'') (connected ?r))) =
       issued (connected ?r) @ [\<lparr>table = ''clinics'',
         steps = [Select (Some ''*''), Eq ''clinic_code'' (JStr (ascii_upper ''abc'')), Single]\<rparr>]"
    using t [THEN conjunct1] s by blast
  from t [THEN conjunct2, THEN conjunct1] s d n p obtain obj where
    o: "fst (getAllClinics (connected ?r)) = Returned obj" and
    look: "\<forall>k. k \<noteq> ''__proto__'' \<longrightarrow>
            own_property obj k = find (\<lambda>r. row_key r = Some k) (rev ?rows)"
    by blast
  have "own_property obj ''abc'' = find (\<lambda>r. row_key r = Some ''abc'') (rev ?rows)"
    using look by simp
  then have 2: "own_property obj ''abc'' = Some (clinic_row ''abc'' ''N'')"
    by (simp add: row_key_def clinic_row_def)
  have "own_property obj ''ABC'' = find (\<lambda>r. row_key r = Some ''ABC'') (rev ?rows)"
    using look by simp
  then have 3: "own_property obj ''ABC'' = None"
    by (simp add: row_key_def clinic_row_def)
  have "row_key (JObj [(''clinic_code'', JStr ''abc''), (''name'', JStr ''N'')]) = Some ''abc''"
    using t [THEN conjunct2, THEN conjunct2, THEN conjunct2] m by blast
  then have 4: "row_key (clinic_row ''abc'' ''N'') = Some ''abc''"
    by (simp only: clinic_row_def)
  have 5: "\<exists>obj. fst (getAllClinics (connected ?r)) = Returned obj
       \<and> own_property obj ''abc'' = Some (clinic_row ''abc'' ''N'')
       \<and> own_property obj ''ABC'' = None"
    using o 2 3 by blast
  show ?thesis
    using s p 1 5 4 by (simp only: i ascii_upper_abc append_Nil simp_thms)
qed

end
